theory Spec2Isabelle
  imports Main "HOL-Library.Word"
begin

section \<open>Strings\<close>

text \<open>
  A Python \<open>str\<close> is modelled as a \<open>string\<close>, one \<open>char\<close> per code point, so that
  \<open>length\<close> is Python's \<open>len\<close> and \<open>take n\<close> is the slice \<open>[:n]\<close>. A \<open>char\<close> has
  eight bits: the model covers the code points up to 255, which include every character
  the patterns of \<open>app.py\<close> name. Uploaded file contents are \<open>bytes\<close>.
\<close>

type_synonym bytes = "8 word list"

definition code :: "char \<Rightarrow> nat" where
  "code c = of_char c"

text \<open>
  \<open>str.lower()\<close> on one code point: below 256 the upper-case letters are \<open>A\<close>..\<open>Z\<close> and
  the Latin-1 capitals 0xC0..0xDE without the multiplication sign 0xD7; each is mapped 32
  code points up.
\<close>

definition lower_char :: "char \<Rightarrow> char" where
  "lower_char c =
     (if (65 \<le> code c \<and> code c \<le> 90) \<or> (192 \<le> code c \<and> code c \<le> 222 \<and> code c \<noteq> 215)
      then char_of (code c + 32) else c)"

definition lower :: "string \<Rightarrow> string" where
  "lower s = map lower_char s"

text \<open>
  \<open>s.rsplit(sep, 1)\<close> for a one-character separator: the text before the last
  separator and the text after it, or the whole string alone when it has no separator.
\<close>

definition rsplit1 :: "char \<Rightarrow> string \<Rightarrow> string list" where
  "rsplit1 sep s =
     (if sep \<in> set s
      then [rev (tl (dropWhile (\<lambda>c. c \<noteq> sep) (rev s))), rev (takeWhile (\<lambda>c. c \<noteq> sep) (rev s))]
      else [s])"

text \<open>
  \<open>get_file_extension\<close> (app.py, line 18). The index \<open>[1]\<close> is read only when the
  name has a dot, where \<open>rsplit1\<close> has two parts.
\<close>

definition get_file_extension :: "string \<Rightarrow> string" where
  "get_file_extension filename =
     (if CHR ''.'' \<in> set filename then lower (rsplit1 CHR ''.'' filename ! 1) else [])"

section \<open>Regular expressions as Python's \<open>re\<close> module matches them\<close>

text \<open>
  The syntax of the patterns that \<open>app.py\<close> uses. A character class is a list of
  inclusive ranges. \<open>Bol\<close> is \<open>^\<close> and \<open>Eol\<close> is \<open>$\<close>, both without the MULTILINE
  flag; \<open>Dot\<close> is \<open>.\<close> without DOTALL. A non-capturing group \<open>(?:r)\<close> is \<open>r\<close> itself.
\<close>

datatype rx =
    Eps
  | Chr char
  | Dot
  | Cls "(char \<times> char) list"
  | Bol
  | Eol
  | Seq rx rx
  | Alt rx rx
  | Star rx
  | Grp nat rx

text \<open>The derived forms: a literal word, \<open>r?\<close>, \<open>r+\<close> and \<open>r{n}\<close> (all greedy).\<close>

fun lit :: "string \<Rightarrow> rx" where
  "lit [] = Eps"
| "lit (c # cs) = Seq (Chr c) (lit cs)"

definition Opt :: "rx \<Rightarrow> rx" where
  "Opt r = Alt r Eps"

definition Plus :: "rx \<Rightarrow> rx" where
  "Plus r = Seq r (Star r)"

fun rep :: "nat \<Rightarrow> rx \<Rightarrow> rx" where
  "rep 0 r = Eps"
| "rep (Suc n) r = Seq r (rep n r)"

fun in_class :: "(char \<times> char) list \<Rightarrow> char \<Rightarrow> bool" where
  "in_class [] c = False"
| "in_class ((lo, hi) # rs) c = ((code lo \<le> code c \<and> code c \<le> code hi) \<or> in_class rs c)"

text \<open>
  A matcher state is the position in the subject, the text from that position on, and
  the groups captured so far (the latest capture of a group first). \<open>rx_run r st\<close> is
  the list of all states in which a match of \<open>r\<close> begun in \<open>st\<close> can end, in the order
  in which a backtracking matcher tries them: the left alternative before the right one,
  one more iteration of a star before stopping (an iteration that consumes no character
  ends the star). Its head is the match that \<open>re\<close> reports.
\<close>

type_synonym groups = "(nat \<times> string) list"
type_synonym mstate = "nat \<times> string \<times> groups"

fun rx_run :: "rx \<Rightarrow> mstate \<Rightarrow> mstate list" where
  "rx_run Eps st = [st]"
| "rx_run (Chr a) (i, rest, g) =
     (case rest of [] \<Rightarrow> [] | c # cs \<Rightarrow> if c = a then [(Suc i, cs, g)] else [])"
| "rx_run Dot (i, rest, g) =
     (case rest of [] \<Rightarrow> [] | c # cs \<Rightarrow> if c \<noteq> CHR 0x0A then [(Suc i, cs, g)] else [])"
| "rx_run (Cls rs) (i, rest, g) =
     (case rest of [] \<Rightarrow> [] | c # cs \<Rightarrow> if in_class rs c then [(Suc i, cs, g)] else [])"
| "rx_run Bol (i, rest, g) = (if i = 0 then [(i, rest, g)] else [])"
| "rx_run Eol (i, rest, g) = (if rest = [] \<or> rest = [CHR 0x0A] then [(i, rest, g)] else [])"
| "rx_run (Seq r1 r2) st = concat (map (rx_run r2) (rx_run r1 st))"
| "rx_run (Alt r1 r2) st = rx_run r1 st @ rx_run r2 st"
| "rx_run (Star r) (i, rest, g) =
     concat (map (\<lambda>(j, rest', g').
                    if length rest' < length rest then rx_run (Star r) (j, rest', g') else [])
                 (rx_run r (i, rest, g)))
     @ [(i, rest, g)]"
| "rx_run (Grp n r) (i, rest, g) =
     map (\<lambda>(j, rest', g'). (j, rest', (n, take (j - i) rest) # g')) (rx_run r (i, rest, g))"

declare rx_run.simps(9) [simp del]

text \<open>
  \<open>re.match\<close> tries the pattern at position 0 only; \<open>re.search\<close> tries every start
  position from the left, the end of the subject included, and keeps the first that
  matches. A match object is the list of its groups; \<open>m.group(n)\<close> is \<open>None\<close> for a
  group that took no part in the match.
\<close>

definition re_match :: "rx \<Rightarrow> string \<Rightarrow> groups option" where
  "re_match r s = (case rx_run r (0, s, []) of [] \<Rightarrow> None | (j, rest, g) # _ \<Rightarrow> Some g)"

fun search_from :: "rx \<Rightarrow> nat \<Rightarrow> string \<Rightarrow> groups option" where
  "search_from r i rest =
     (case rx_run r (i, rest, []) of
        (j, rest', g) # _ \<Rightarrow> Some g
      | [] \<Rightarrow> (case rest of [] \<Rightarrow> None | c # cs \<Rightarrow> search_from r (Suc i) cs))"

declare search_from.simps [simp del]

definition re_search :: "rx \<Rightarrow> string \<Rightarrow> groups option" where
  "re_search r s = search_from r 0 s"

definition group :: "groups \<Rightarrow> nat \<Rightarrow> string option" where
  "group g n = map_of g n"

section \<open>The URL classifier\<close>

text \<open>
  \<open>is_youtube_url\<close> (app.py, line 23) with its pattern
  \<^verbatim>\<open>^(https?://)?(www\.)?(youtube\.com|youtu\.?be)/.+$\<close>.
\<close>

definition youtube_regex :: rx where
  "youtube_regex =
     Seq Bol
    (Seq (Opt (Grp 1 (Seq (lit ''http'') (Seq (Opt (Chr CHR ''s'')) (lit ''://'')))))
    (Seq (Opt (Grp 2 (lit ''www.'')))
    (Seq (Grp 3 (Alt (lit ''youtube.com'')
                     (Seq (lit ''youtu'') (Seq (Opt (Chr CHR ''.'')) (lit ''be'')))))
    (Seq (Chr CHR ''/'')
    (Seq (Plus Dot)
         Eol)))))"

definition is_youtube_url :: "string \<Rightarrow> bool" where
  "is_youtube_url url = (re_match youtube_regex url \<noteq> None)"

text \<open>
  \<open>extract_youtube_id\<close> (app.py, line 29). The class \<^verbatim>\<open>[0-9A-Za-z_-]\<close> and the three
  patterns, tried in the order of the source's list:
  \<^verbatim>\<open>(?:v=|\/)([0-9A-Za-z_-]{11}).*\<close>,
  \<^verbatim>\<open>(?:youtu\.be\/)([0-9A-Za-z_-]{11})\<close> and
  \<^verbatim>\<open>(?:embed\/)([0-9A-Za-z_-]{11})\<close>.
\<close>

definition id_class :: "(char \<times> char) list" where
  "id_class = [(CHR ''0'', CHR ''9''), (CHR ''A'', CHR ''Z''), (CHR ''a'', CHR ''z''),
               (CHR ''_'', CHR ''_''), (CHR ''-'', CHR ''-'')]"

definition id_group :: rx where
  "id_group = Grp 1 (rep 11 (Cls id_class))"

definition patterns :: "rx list" where
  "patterns =
     [Seq (Alt (lit ''v='') (Chr CHR ''/'')) (Seq id_group (Star Dot)),
      Seq (lit ''youtu.be/'') id_group,
      Seq (lit ''embed/'') id_group]"

fun first_group :: "rx list \<Rightarrow> string \<Rightarrow> string option" where
  "first_group [] url = None"
| "first_group (p # ps) url =
     (case re_search p url of Some m \<Rightarrow> group m 1 | None \<Rightarrow> first_group ps url)"

definition extract_youtube_id :: "string \<Rightarrow> string option" where
  "extract_youtube_id url = first_group patterns url"

section \<open>The conversion dispatcher\<close>

text \<open>
  What \<open>app.py\<close> does not decide is a parameter of the model: which path
  \<open>tempfile.NamedTemporaryFile(delete=False, suffix=...)\<close> picks for its new file (or
  the error it raises when the file cannot be created), and what
  \<open>MarkItDown(enable_plugins=False).convert(source).text_content\<close> returns for a path or
  a URL (or the exception it raises). An \<open>exn\<close> is an instance of Python's \<open>Exception\<close>,
  the class that both \<open>except\<close> clauses of \<open>app.py\<close> catch; it carries \<open>str(e)\<close>. The
  file system is a map from paths to contents. The engine reads it and leaves it as it is.
\<close>

datatype exn = Exn string

fun str_exn :: "exn \<Rightarrow> string" where
  "str_exn (Exn msg) = msg"

type_synonym fs = "string \<rightharpoonup> bytes"

record env =
  named_temporary_file :: "fs \<Rightarrow> string \<Rightarrow> exn + string"
  md_convert :: "fs \<Rightarrow> string \<Rightarrow> exn + string"

text \<open>\<open>os.unlink\<close>: removes the file, and raises FileNotFoundError when there is none.\<close>

definition os_unlink :: "fs \<Rightarrow> string \<Rightarrow> exn + fs" where
  "os_unlink fs path =
     (if path \<in> dom fs then Inr (fs(path := None))
      else Inl (Exn (''[Errno 2] No such file or directory: '' @ path)))"

text \<open>
  The \<open>try\<close> block of \<open>convert_file_to_markdown\<close> (app.py, lines 57 to 70): the value
  it returns or the exception that leaves it, and the file system at that moment.
\<close>

definition convert_file_try :: "env \<Rightarrow> fs \<Rightarrow> bytes \<Rightarrow> string \<Rightarrow> (exn + string) \<times> fs" where
  "convert_file_try env fs file_data filename =
     (let ext = get_file_extension filename in
      case named_temporary_file env fs (CHR ''.'' # ext) of
        Inl e \<Rightarrow> (Inl e, fs)
      | Inr tmp_file_path \<Rightarrow>
          (let fs1 = fs(tmp_file_path \<mapsto> file_data) in
           case md_convert env fs1 tmp_file_path of
             Inl e \<Rightarrow> (Inl e, fs1)
           | Inr text_content \<Rightarrow>
               (case os_unlink fs1 tmp_file_path of
                  Inl e \<Rightarrow> (Inl e, fs1)
                | Inr fs2 \<Rightarrow> (Inr text_content, fs2))))"

text \<open>
  \<open>convert_file_to_markdown\<close> (app.py, line 45): the \<open>try\<close> block under its
  \<open>except Exception as e: return "", str(e)\<close>. The result is the source's tuple
  \<open>(markdown_content, error_message)\<close>, beside the file system the call leaves.
\<close>

definition convert_file_to_markdown ::
    "env \<Rightarrow> fs \<Rightarrow> bytes \<Rightarrow> string \<Rightarrow> (string \<times> string option) \<times> fs" where
  "convert_file_to_markdown env fs file_data filename =
     (case convert_file_try env fs file_data filename of
        (Inr text_content, fs') \<Rightarrow> ((text_content, None), fs')
      | (Inl e, fs') \<Rightarrow> (([], Some (str_exn e)), fs'))"

text \<open>\<open>convert_youtube_to_markdown\<close> (app.py, line 75); it touches no file.\<close>

definition convert_youtube_to_markdown :: "env \<Rightarrow> fs \<Rightarrow> string \<Rightarrow> string \<times> string option" where
  "convert_youtube_to_markdown env fs url =
     (case md_convert env fs url of
        Inr text_content \<Rightarrow> (text_content, None)
      | Inl e \<Rightarrow> ([], Some (str_exn e)))"

section \<open>The session controller\<close>

text \<open>
  \<open>st.session_state\<close> with its two keys; \<open>None\<close> is a key that is not there yet. One
  run of \<open>main\<close> reads the widgets: the uploaded file (\<open>None\<close> without an upload), the
  text of the URL field (empty when nothing was entered) and whether the button was
  pressed in this run.
\<close>

record session_state =
  markdown_content :: "string option"
  file_name :: "string option"

record uploaded_file =
  name :: string
  getbuffer :: bytes

record inputs =
  uploaded_file :: "uploaded_file option"
  youtube_url :: string
  convert_clicked :: bool

text \<open>
  What a run shows, of the elements that depend on the inputs (the title, the logo and
  the sidebar are the same in every run): \<open>st.error\<close>, \<open>st.success\<close>, \<open>st.divider\<close>,
  \<open>st.download_button\<close> with its data and file name, \<open>st.subheader\<close> and
  \<open>st.text_area\<close> with its value. \<open>calls\<close> lists the conversion functions that the run
  invoked, with their arguments.
\<close>

datatype element =
    St_error string
  | St_success string
  | St_divider
  | St_download_button string string
  | St_subheader string
  | St_text_area string

datatype call =
    Convert_file bytes string
  | Convert_url string

record page =
  session :: session_state
  files :: fs
  shown :: "element list"
  calls :: "call list"

text \<open>Lines 125 to 128: a key that is missing is set to the empty string.\<close>

definition init_session :: "session_state \<Rightarrow> session_state" where
  "init_session st =
     st\<lparr>markdown_content := (case markdown_content st of None \<Rightarrow> Some [] | Some c \<Rightarrow> Some c),
        file_name := (case file_name st of None \<Rightarrow> Some [] | Some n \<Rightarrow> Some n)\<rparr>"

text \<open>
  \<open>if error:\<close> tests the truth value of the second component: it holds for a message
  that is not empty, and fails for \<open>None\<close> and for the empty message alike.
\<close>

definition if_error :: "string option \<Rightarrow> string option" where
  "if_error error = (case error of None \<Rightarrow> None | Some e \<Rightarrow> if e = [] then None else Some e)"

text \<open>Lines 207 to 210: the file name for a converted URL.\<close>

definition youtube_file_name :: "string \<Rightarrow> string" where
  "youtube_file_name url =
     (case extract_youtube_id url of
        None \<Rightarrow> ''youtube_video.md''
      | Some video_id \<Rightarrow>
          if video_id = [] then ''youtube_video.md'' else ''youtube_'' @ video_id @ ''.md'')"

text \<open>
  The body of \<open>if st.button(...)\<close> (lines 180 to 214). An uploaded file object is
  true; a URL string is true when it is not empty.
\<close>

definition convert_button :: "env \<Rightarrow> fs \<Rightarrow> session_state \<Rightarrow> uploaded_file option \<Rightarrow> string \<Rightarrow> page" where
  "convert_button env fs st upl url =
     (if upl = None \<and> url = [] then
        \<lparr>session = st, files = fs,
         shown = [St_error ''Please upload a file or enter a YouTube URL''], calls = []\<rparr>
      else if url \<noteq> [] \<and> \<not> is_youtube_url url then
        \<lparr>session = st, files = fs,
         shown = [St_error ''Please enter a valid YouTube URL''], calls = []\<rparr>
      else
        (case upl of
           Some f \<Rightarrow>
             (case convert_file_to_markdown env fs (getbuffer f) (name f) of
                ((content, error), fs') \<Rightarrow>
                  (case if_error error of
                     Some e \<Rightarrow>
                       \<lparr>session = st, files = fs',
                        shown = [St_error (''Error during conversion: '' @ e)],
                        calls = [Convert_file (getbuffer f) (name f)]\<rparr>
                   | None \<Rightarrow>
                       \<lparr>session = st\<lparr>markdown_content := Some content, file_name := Some (name f)\<rparr>,
                        files = fs',
                        shown = [St_success ''Conversion completed successfully!''],
                        calls = [Convert_file (getbuffer f) (name f)]\<rparr>))
         | None \<Rightarrow>
             if url \<noteq> [] then
               (case convert_youtube_to_markdown env fs url of
                  (content, error) \<Rightarrow>
                    (case if_error error of
                       Some e \<Rightarrow>
                         \<lparr>session = st, files = fs,
                          shown = [St_error (''Error during conversion: '' @ e)],
                          calls = [Convert_url url]\<rparr>
                     | None \<Rightarrow>
                         \<lparr>session = st\<lparr>markdown_content := Some content,
                                       file_name := Some (youtube_file_name url)\<rparr>,
                          files = fs,
                          shown = [St_success ''Conversion completed successfully!''],
                          calls = [Convert_url url]\<rparr>))
             else \<lparr>session = st, files = fs, shown = [], calls = []\<rparr>))"

text \<open>
  The results section (lines 217 to 239): nothing for an empty content, else the
  download button with the whole content and the preview of its first 2000 characters.
  Both keys are present from line 128 on.
\<close>

definition truncation_notice :: string where
  "truncation_notice =
     ''...'' @ [CHR 0x0A, CHR 0x0A] @
     ''(Preview truncated. Download the full file to see all content.)''"

definition preview_content :: "string \<Rightarrow> string" where
  "preview_content content =
     (if length content > 2000 then take 2000 content @ truncation_notice
      else take 2000 content)"

definition download_name :: "string \<Rightarrow> string" where
  "download_name stored = rsplit1 CHR ''.'' stored ! 0 @ ''.md''"

definition results_section :: "session_state \<Rightarrow> element list" where
  "results_section st =
     (case (markdown_content st, file_name st) of
        (Some content, Some stored) \<Rightarrow>
          if content = [] then []
          else [St_divider,
                St_download_button content (download_name stored),
                St_subheader ''Preview'',
                St_text_area (preview_content content)]
      | _ \<Rightarrow> [])"

text \<open>One run of \<open>main\<close> (app.py, line 123).\<close>

definition main :: "env \<Rightarrow> fs \<Rightarrow> session_state \<Rightarrow> inputs \<Rightarrow> page" where
  "main env fs st inp =
     (let st0 = init_session st;
          p = (if convert_clicked inp
               then convert_button env fs st0 (uploaded_file inp) (youtube_url inp)
               else \<lparr>session = st0, files = fs, shown = [], calls = []\<rparr>)
      in p\<lparr>shown := shown p @ results_section (session p)\<rparr>)"

section \<open>Notions used to state and prove the properties\<close>

text \<open>
  \<open>ident x\<close>: \<open>x\<close> is eleven characters of the identifier class. \<open>starts w s\<close>: \<open>s\<close>
  begins with \<open>w\<close>. \<open>id_at rest\<close>: \<open>rest\<close> begins with \<open>v=\<close> or with a slash, and an
  identifier follows at once. \<open>has_id s\<close>: that holds somewhere in \<open>s\<close>. The last three
  definitions name the parts of \<open>patterns\<close>.
\<close>

definition ident :: "string \<Rightarrow> bool" where
  "ident x = (length x = 11 \<and> (\<forall>c\<in>set x. in_class id_class c))"

definition starts :: "string \<Rightarrow> string \<Rightarrow> bool" where
  "starts w s = (take (length w) s = w)"

definition id_at :: "string \<Rightarrow> bool" where
  "id_at rest =
     ((starts ''v='' rest \<and> ident (take 11 (drop 2 rest))) \<or>
      (starts ''/'' rest \<and> ident (take 11 (drop 1 rest))))"

fun has_id :: "string \<Rightarrow> bool" where
  "has_id [] = False"
| "has_id (c # cs) = (id_at (c # cs) \<or> has_id cs)"

definition id_tail :: rx where
  "id_tail = Seq id_group (Star Dot)"

definition p1 :: rx where
  "p1 = Seq (Alt (lit ''v='') (Chr CHR ''/'')) id_tail"

definition slash_id :: "string \<Rightarrow> rx" where
  "slash_id w = Seq (lit (w @ ''/'')) id_group"

text \<open>
  Two engines for the concrete instances below: one that returns a given text for every
  source and one that raises an exception with a given message. Both let the temporary
  file be created, under a fixed name.
\<close>

definition engine_returning :: "string \<Rightarrow> env" where
  "engine_returning text =
     \<lparr>named_temporary_file = (\<lambda>fs suffix. Inr (''/tmp/tmpk3x9'' @ suffix)),
      md_convert = (\<lambda>fs source. Inr text)\<rparr>"

definition engine_raising :: "string \<Rightarrow> env" where
  "engine_raising msg =
     \<lparr>named_temporary_file = (\<lambda>fs suffix. Inr (''/tmp/tmpk3x9'' @ suffix)),
      md_convert = (\<lambda>fs source. Inl (Exn msg))\<rparr>"

text \<open>A session that holds an earlier result, and an upload.\<close>

definition old_session :: session_state where
  "old_session = \<lparr>markdown_content = Some ''# Old'', file_name = Some ''old.docx''\<rparr>"

definition report_docx :: uploaded_file where
  "report_docx = \<lparr>name = ''report.docx'', getbuffer = [0x50, 0x4B]\<rparr>"

section \<open>The matcher on the patterns of \<open>extract_youtube_id\<close>\<close>

lemma rx_run_lit:
  "rx_run (lit w) (i, rest, g) =
     (if starts w rest then [(i + length w, drop (length w) rest, g)] else [])"
  unfolding starts_def
proof (induction w arbitrary: i rest)
  case Nil
  show ?case by simp
next
  case (Cons c cs)
  show ?case
  proof (cases rest)
    case Nil
    then show ?thesis by simp
  next
    case (Cons d ds)
    with Cons.IH [of "Suc i" ds] show ?thesis by auto
  qed
qed

lemma rx_run_rep_Cls:
  "rx_run (rep n (Cls R)) (i, rest, g) =
     (if n \<le> length rest \<and> (\<forall>c\<in>set (take n rest). in_class R c)
      then [(i + n, drop n rest, g)] else [])"
proof (induction n arbitrary: i rest)
  case 0
  show ?case by simp
next
  case (Suc n)
  show ?case
  proof (cases rest)
    case Nil
    then show ?thesis by simp
  next
    case (Cons d ds)
    with Suc.IH [of "Suc i" ds] show ?thesis by auto
  qed
qed

lemma rx_run_id_group:
  "rx_run id_group (i, rest, g) =
     (if ident (take 11 rest) then [(i + 11, drop 11 rest, (1, take 11 rest) # g)] else [])"
  by (auto simp add: id_group_def rx_run_rep_Cls ident_def)

lemma star_dot_groups:
  "(j, rest', g') \<in> set (rx_run (Star Dot) (i, rest, g)) \<Longrightarrow> g' = g"
proof (induction rest arbitrary: i)
  case Nil
  then show ?case by (simp add: rx_run.simps(9))
next
  case (Cons c cs)
  from Cons.prems Cons.IH [of "Suc i"] show ?case
    by (auto simp: rx_run.simps(9) [of Dot i "c # cs"] split: if_splits)
qed

lemma star_nonempty: "rx_run (Star r) st \<noteq> []"
  by (cases st) (simp add: rx_run.simps(9))

lemma id_tail_empty:
  "rx_run id_tail (i, rest, g) = [] \<longleftrightarrow> \<not> ident (take 11 rest)"
  by (simp add: id_tail_def rx_run_id_group star_nonempty)

lemma id_tail_groups:
  "(j, rest', g') \<in> set (rx_run id_tail (i, rest, g))
   \<Longrightarrow> g' = (1, take 11 rest) # g \<and> ident (take 11 rest)"
  by (auto simp add: id_tail_def rx_run_id_group split: if_splits dest: star_dot_groups)

lemma rx_run_Chr:
  "rx_run (Chr a) (i, rest, g) = (if starts [a] rest then [(Suc i, drop 1 rest, g)] else [])"
  by (cases rest) (auto simp: starts_def)

lemma rx_run_p1:
  "rx_run p1 (i, rest, g) =
     (if starts ''v='' rest then rx_run id_tail (i + 2, drop 2 rest, g) else []) @
     (if starts ''/'' rest then rx_run id_tail (Suc i, drop 1 rest, g) else [])"
  by (simp add: p1_def rx_run_lit rx_run_Chr numeral_2_eq_2 del: rx_run.simps(2) lit.simps)

lemma p1_empty: "rx_run p1 (i, rest, g) = [] \<longleftrightarrow> \<not> id_at rest"
  by (simp add: rx_run_p1 id_at_def id_tail_empty)

lemma p1_groups:
  assumes "(j, rest', g') \<in> set (rx_run p1 (i, rest, g))"
  shows "\<exists>x. g' = (1, x) # g \<and> ident x"
  using assms by (auto simp add: rx_run_p1 split: if_splits dest!: id_tail_groups)

lemma id_at_Nil: "\<not> id_at []"
  by (simp add: id_at_def ident_def)

lemma search_p1_None: "search_from p1 i rest = None \<longleftrightarrow> \<not> has_id rest"
proof (induction rest arbitrary: i)
  case Nil
  have "rx_run p1 (i, [], []) = []"
    by (simp add: p1_empty id_at_Nil)
  then show ?case
    by (simp add: search_from.simps [of p1 i "[]"])
next
  case (Cons c cs)
  show ?case
  proof (cases "id_at (c # cs)")
    case True
    then have "rx_run p1 (i, c # cs, []) \<noteq> []"
      by (simp add: p1_empty)
    with True show ?thesis
      by (auto simp add: search_from.simps [of p1 i "c # cs"] split: list.splits)
  next
    case False
    then have "rx_run p1 (i, c # cs, []) = []"
      by (simp add: p1_empty)
    with False Cons.IH [of "Suc i"] show ?thesis
      by (simp add: search_from.simps [of p1 i "c # cs"])
  qed
qed

lemma search_p1_Some:
  "search_from p1 i rest = Some g \<Longrightarrow> \<exists>x. g = [(1, x)] \<and> ident x"
proof (induction rest arbitrary: i)
  case Nil
  have "rx_run p1 (i, [], []) = []"
    by (simp add: p1_empty id_at_Nil)
  with Nil show ?case
    by (simp add: search_from.simps [of p1 i "[]"])
next
  case (Cons c cs)
  show ?case
  proof (cases "rx_run p1 (i, c # cs, [])")
    case Nil
    with Cons.prems have "search_from p1 (Suc i) cs = Some g"
      by (simp add: search_from.simps [of p1 i "c # cs"])
    then show ?thesis by (rule Cons.IH)
  next
    case (Cons st more)
    obtain j rest' g' where st: "st = (j, rest', g')"
      by (cases st) auto
    with Cons have "(j, rest', g') \<in> set (rx_run p1 (i, c # cs, []))"
      by simp
    then have "\<exists>x. g' = [(1, x)] \<and> ident x"
      by (rule p1_groups)
    moreover from Cons st \<open>search_from p1 i (c # cs) = Some g\<close> have "g = g'"
      by (simp add: search_from.simps [of p1 i "c # cs"])
    ultimately show ?thesis by simp
  qed
qed


lemma patterns_eq: "patterns = [p1, slash_id ''youtu.be'', slash_id ''embed'']"
  by (simp add: patterns_def p1_def id_tail_def slash_id_def)

lemma has_id_iff_drop: "has_id s \<longleftrightarrow> (\<exists>k. id_at (drop k s))"
proof (induction s)
  case Nil
  show ?case by (simp add: id_at_Nil)
next
  case (Cons c cs)
  have "(\<exists>k. id_at (drop k (c # cs))) \<longleftrightarrow> id_at (c # cs) \<or> (\<exists>k. id_at (drop k cs))"
  proof
    assume "\<exists>k. id_at (drop k (c # cs))"
    then obtain k where k: "id_at (drop k (c # cs))" ..
    show "id_at (c # cs) \<or> (\<exists>k. id_at (drop k cs))"
    proof (cases k)
      case 0
      with k show ?thesis by simp
    next
      case (Suc m)
      with k have "id_at (drop m cs)" by simp
      then show ?thesis by blast
    qed
  next
    assume "id_at (c # cs) \<or> (\<exists>k. id_at (drop k cs))"
    then show "\<exists>k. id_at (drop k (c # cs))"
    proof
      assume "id_at (c # cs)"
      then have "id_at (drop 0 (c # cs))" by simp
      then show ?thesis ..
    next
      assume "\<exists>k. id_at (drop k cs)"
      then obtain k where "id_at (drop k cs)" ..
      then have "id_at (drop (Suc k) (c # cs))" by simp
      then show ?thesis ..
    qed
  qed
  with Cons.IH show ?case by simp
qed

lemma starts_append: "starts w s \<longleftrightarrow> (\<exists>t. s = w @ t)"
proof
  assume "starts w s"
  then have "s = w @ drop (length w) s"
    by (metis starts_def append_take_drop_id)
  then show "\<exists>t. s = w @ t" ..
next
  assume "\<exists>t. s = w @ t"
  then show "starts w s" by (auto simp: starts_def)
qed

lemma slash_id_run:
  assumes "rx_run (slash_id w) (i, rest, g) \<noteq> []"
  shows "id_at (drop (length w) rest)"
proof -
  from assms have st: "starts (w @ ''/'') rest"
    and idn: "ident (take 11 (drop (Suc (length w)) rest))"
    by (auto simp add: slash_id_def rx_run_lit rx_run_id_group simp del: lit.simps split: if_splits)
  from st obtain t where t: "rest = (w @ ''/'') @ t"
    unfolding starts_append ..
  then have "drop (length w) rest = ''/'' @ t" by simp
  moreover from t have "drop (Suc (length w)) rest = t" by simp
  ultimately show ?thesis using idn
    by (simp add: id_at_def starts_def)
qed

lemma search_None:
  "(\<And>i k. rx_run p (i, drop k rest, []) = []) \<Longrightarrow> search_from p i rest = None"
proof (induction rest arbitrary: i)
  case Nil
  from Nil [of i 0] show ?case
    by (simp add: search_from.simps [of p i "[]"])
next
  case (Cons c cs)
  have "search_from p (Suc i) cs = None"
  proof (rule Cons.IH)
    fix i k
    from Cons.prems [of i "Suc k"] show "rx_run p (i, drop k cs, []) = []" by simp
  qed
  with Cons.prems [of i 0] show ?case
    by (simp add: search_from.simps [of p i "c # cs"])
qed

lemma search_slash_id_None:
  assumes "\<not> has_id s"
  shows "search_from (slash_id w) i s = None"
proof (rule search_None)
  fix i k
  show "rx_run (slash_id w) (i, drop k s, []) = []"
  proof (rule ccontr)
    assume "rx_run (slash_id w) (i, drop k s, []) \<noteq> []"
    then have "id_at (drop (length w) (drop k s))" by (rule slash_id_run)
    then have "id_at (drop (length w + k) s)" by simp
    then have "has_id s" unfolding has_id_iff_drop ..
    with assms show False by contradiction
  qed
qed

lemma extract_None_iff: "extract_youtube_id s = None \<longleftrightarrow> \<not> has_id s"
proof (cases "has_id s")
  case True
  then obtain g where g: "search_from p1 0 s = Some g"
    using search_p1_None [of 0 s] by auto
  then obtain x where "g = [(1, x)]"
    using search_p1_Some by blast
  with g True show ?thesis
    by (simp add: extract_youtube_id_def patterns_eq re_search_def group_def)
next
  case False
  then have "search_from p1 0 s = None"
    by (simp add: search_p1_None)
  with False show ?thesis
    by (simp add: extract_youtube_id_def patterns_eq re_search_def search_slash_id_None)
qed

lemma extract_Some_ident:
  assumes "extract_youtube_id s = Some x"
  shows "ident x"
proof (cases "search_from p1 0 s")
  case None
  then have "\<not> has_id s" by (simp add: search_p1_None)
  then have "extract_youtube_id s = None" by (simp add: extract_None_iff)
  with assms show ?thesis by simp
next
  case (Some g)
  then obtain y where "g = [(1, y)]" and "ident y"
    using search_p1_Some by blast
  with Some assms show ?thesis
    by (simp add: extract_youtube_id_def patterns_eq re_search_def group_def)
qed

lemma id_at_iff:
  "id_at t \<longleftrightarrow>
     (\<exists>m x post. t = m @ x @ post \<and> (m = ''v='' \<or> m = ''/'') \<and> ident x)"
proof
  assume "id_at t"
  then consider "starts ''v='' t" "ident (take 11 (drop 2 t))"
    | "starts ''/'' t" "ident (take 11 (drop 1 t))"
    by (auto simp: id_at_def)
  then show "\<exists>m x post. t = m @ x @ post \<and> (m = ''v='' \<or> m = ''/'') \<and> ident x"
  proof cases
    case 1
    from 1(1) obtain u where "t = ''v='' @ u" unfolding starts_append ..
    then have "t = ''v='' @ take 11 (drop 2 t) @ drop 11 u" by simp
    with 1(2) show ?thesis by blast
  next
    case 2
    from 2(1) obtain u where "t = ''/'' @ u" unfolding starts_append ..
    then have "t = ''/'' @ take 11 (drop 1 t) @ drop 11 u" by simp
    with 2(2) show ?thesis by blast
  qed
next
  assume "\<exists>m x post. t = m @ x @ post \<and> (m = ''v='' \<or> m = ''/'') \<and> ident x"
  then obtain m x post where t: "t = m @ x @ post" and m: "m = ''v='' \<or> m = ''/''"
    and x: "ident x" by blast
  from x have "length x = 11" by (simp add: ident_def)
  with t m x show "id_at t"
    by (auto simp: id_at_def starts_def)
qed

lemma has_id_iff:
  "has_id s \<longleftrightarrow>
     (\<exists>pre m x post. s = pre @ m @ x @ post \<and> (m = ''v='' \<or> m = ''/'') \<and> ident x)"
proof
  assume "has_id s"
  then obtain k where "id_at (drop k s)" unfolding has_id_iff_drop ..
  then obtain m x post where "drop k s = m @ x @ post" "m = ''v='' \<or> m = ''/''" "ident x"
    unfolding id_at_iff by blast
  moreover have "s = take k s @ drop k s" by simp
  ultimately have "s = take k s @ m @ x @ post \<and> (m = ''v='' \<or> m = ''/'') \<and> ident x"
    by simp
  then show "\<exists>pre m x post. s = pre @ m @ x @ post \<and> (m = ''v='' \<or> m = ''/'') \<and> ident x"
    by blast
next
  assume "\<exists>pre m x post. s = pre @ m @ x @ post \<and> (m = ''v='' \<or> m = ''/'') \<and> ident x"
  then obtain pre m x post where s: "s = pre @ m @ x @ post"
    and mx: "(m = ''v='' \<or> m = ''/'') \<and> ident x" by blast
  then have "id_at (m @ x @ post)" unfolding id_at_iff by blast
  with s have "id_at (drop (length pre) s)" by simp
  then show "has_id s" unfolding has_id_iff_drop ..
qed

section \<open>The classifier and the extractor\<close>

lemma not_youtube_example: "\<not> is_youtube_url ''https://example.com/video''"
  by code_simp

lemma no_id_example: "extract_youtube_id ''https://example.com/video'' = None"
  by code_simp

lemma not_youtube_Nil: "\<not> is_youtube_url []"
  by code_simp

text \<open>
  C2, as the claim states it, fails: the extractor does not consult the classifier. The
  string below is no YouTube URL for \<open>is_youtube_url\<close> (its host is \<open>example.com\<close>), and
  the first pattern of \<open>extract_youtube_id\<close> still finds a slash followed by eleven
  identifier characters in it.
\<close>

theorem extract_on_rejected_url:
  "\<not> is_youtube_url ''https://example.com/dQw4w9WgXcQ'' \<and>
   extract_youtube_id ''https://example.com/dQw4w9WgXcQ'' = Some ''dQw4w9WgXcQ''"
  by code_simp

text \<open>
  C2, amended: for every string, accepted by the classifier or not, \<open>extract_youtube_id\<close>
  returns \<open>None\<close> exactly when the string has no \<open>v=\<close> and no slash that is followed at
  once by eleven characters of \<^verbatim>\<open>[0-9A-Za-z_-]\<close>.
\<close>

theorem extract_youtube_id_None_iff:
  "extract_youtube_id s = None \<longleftrightarrow>
     \<not> (\<exists>pre m x post. s = pre @ m @ x @ post \<and> (m = ''v='' \<or> m = ''/'') \<and>
            length x = 11 \<and> (\<forall>c\<in>set x. in_class id_class c))"
  unfolding extract_None_iff has_id_iff ident_def ..

theorem extract_youtube_id_None_witness:
  "extract_youtube_id ''https://example.com/video'' = None \<and>
   \<not> (\<exists>pre m x post. ''https://example.com/video'' = pre @ m @ x @ post \<and>
          (m = ''v='' \<or> m = ''/'') \<and> length x = 11 \<and> (\<forall>c\<in>set x. in_class id_class c))"
proof
  show none: "extract_youtube_id ''https://example.com/video'' = None"
    by (rule no_id_example)
  from extract_youtube_id_None_iff [of "''https://example.com/video''"] none
  show "\<not> (\<exists>pre m x post. ''https://example.com/video'' = pre @ m @ x @ post \<and>
          (m = ''v='' \<or> m = ''/'') \<and> length x = 11 \<and> (\<forall>c\<in>set x. in_class id_class c))"
    by (rule iffD1)
qed

text \<open>
  C9: the classifier accepts \<^verbatim>\<open>https://www.youtube.com/watch?v=dQw4w9WgXcQ\<close> and the
  extractor returns \<^verbatim>\<open>dQw4w9WgXcQ\<close> for it; the extractor returns the same identifier
  for \<^verbatim>\<open>https://youtu.be/dQw4w9WgXcQ\<close>.
\<close>

theorem literal_urls:
  "is_youtube_url ''https://www.youtube.com/watch?v=dQw4w9WgXcQ'' \<and>
   extract_youtube_id ''https://www.youtube.com/watch?v=dQw4w9WgXcQ'' = Some ''dQw4w9WgXcQ'' \<and>
   extract_youtube_id ''https://youtu.be/dQw4w9WgXcQ'' = Some ''dQw4w9WgXcQ''"
  by code_simp

section \<open>File names and the session\<close>

lemma rsplit1_ext:
  assumes "sep \<notin> set ext"
  shows "rsplit1 sep (stem @ sep # ext) = [stem, ext]"
proof -
  have r: "rev (stem @ sep # ext) = rev ext @ sep # rev stem" by simp
  from assms have ne: "\<And>x. x \<in> set (rev ext) \<Longrightarrow> x \<noteq> sep"
    by auto
  have t: "takeWhile (\<lambda>c. c \<noteq> sep) (rev ext @ sep # rev stem) = rev ext"
    using takeWhile_append2 [of "rev ext" "\<lambda>c. c \<noteq> sep" "sep # rev stem"] ne by simp
  have d: "dropWhile (\<lambda>c. c \<noteq> sep) (rev ext @ sep # rev stem) = sep # rev stem"
    using dropWhile_append2 [of "rev ext" "\<lambda>c. c \<noteq> sep" "sep # rev stem"] ne by simp
  show ?thesis unfolding rsplit1_def r t d by simp
qed

lemma download_name_ext:
  "CHR ''.'' \<notin> set ext \<Longrightarrow> download_name (stem @ ''.'' @ ext) = stem @ ''.md''"
  using rsplit1_ext [of "CHR ''.''" ext stem] by (simp add: download_name_def)

lemma docx_extension: "get_file_extension ''report.docx'' = ''docx''"
  by code_simp

lemma init_session_stored:
  "markdown_content st = Some c \<Longrightarrow> file_name st = Some n \<Longrightarrow> init_session st = st"
  by (simp add: init_session_def)

lemma init_session_keys:
  "markdown_content (init_session st) \<noteq> None \<and> file_name (init_session st) \<noteq> None"
  by (simp add: init_session_def split: option.splits)

lemma main_clicked:
  "convert_clicked inp \<Longrightarrow>
   main env fs st inp =
     (convert_button env fs (init_session st) (uploaded_file inp) (youtube_url inp))
       \<lparr>shown := shown (convert_button env fs (init_session st) (uploaded_file inp) (youtube_url inp))
                 @ results_section (session (convert_button env fs (init_session st) (uploaded_file inp) (youtube_url inp)))\<rparr>"
  by (simp add: main_def Let_def)

section \<open>The conversion dispatcher: failures and the scratch file\<close>

lemma try_exception_is_returned:
  "convert_file_try env fs file_data filename = (Inl e, fs')
   \<Longrightarrow> convert_file_to_markdown env fs file_data filename = (([], Some (str_exn e)), fs')"
  by (simp add: convert_file_to_markdown_def)

text \<open>
  C4: an exception that the engine raises is caught inside the function and comes back as
  the pair of an empty content and the exception's message, for a file (where the
  temporary file could be created at \<open>path\<close>, so that the engine is called) and for a
  URL. Both functions return a pair on every input; every other exception that leaves
  the \<open>try\<close> block of \<open>convert_file_to_markdown\<close> is returned in the same way
  (\<open>try_exception_is_returned\<close>).
\<close>

theorem engine_exception_is_returned:
  "(named_temporary_file env fs (CHR ''.'' # get_file_extension filename) = Inr path \<and>
    md_convert env (fs(path \<mapsto> file_data)) path = Inl e
    \<longrightarrow> fst (convert_file_to_markdown env fs file_data filename) = ([], Some (str_exn e))) \<and>
   (md_convert env fs url = Inl e
    \<longrightarrow> convert_youtube_to_markdown env fs url = ([], Some (str_exn e)))"
  by (simp add: convert_file_to_markdown_def convert_file_try_def convert_youtube_to_markdown_def)

theorem engine_exception_witness:
  "fst (convert_file_to_markdown (engine_raising ''File conversion failed'') Map.empty [0x50, 0x4B] ''report.docx'')
     = ([], Some ''File conversion failed'') \<and>
   convert_youtube_to_markdown (engine_raising ''Video unavailable'') Map.empty ''https://youtu.be/dQw4w9WgXcQ''
     = ([], Some ''Video unavailable'')"
proof
  have "named_temporary_file (engine_raising ''File conversion failed'') Map.empty
          (CHR ''.'' # get_file_extension ''report.docx'') = Inr ''/tmp/tmpk3x9.docx''"
    by (simp add: engine_raising_def docx_extension)
  moreover have "md_convert (engine_raising ''File conversion failed'')
          (Map.empty(''/tmp/tmpk3x9.docx'' \<mapsto> [0x50, 0x4B])) ''/tmp/tmpk3x9.docx''
          = Inl (Exn ''File conversion failed'')"
    by (simp add: engine_raising_def)
  ultimately show "fst (convert_file_to_markdown (engine_raising ''File conversion failed'') Map.empty [0x50, 0x4B] ''report.docx'')
     = ([], Some ''File conversion failed'')"
    using engine_exception_is_returned
      [of "engine_raising ''File conversion failed''" Map.empty "''report.docx''"
          "''/tmp/tmpk3x9.docx''" "[0x50, 0x4B]" "Exn ''File conversion failed''"]
    by simp
next
  have "md_convert (engine_raising ''Video unavailable'') Map.empty ''https://youtu.be/dQw4w9WgXcQ''
          = Inl (Exn ''Video unavailable'')"
    by (simp add: engine_raising_def)
  then show "convert_youtube_to_markdown (engine_raising ''Video unavailable'') Map.empty ''https://youtu.be/dQw4w9WgXcQ''
     = ([], Some ''Video unavailable'')"
    using engine_exception_is_returned
      [of "engine_raising ''Video unavailable''" Map.empty _ _ _ "Exn ''Video unavailable''"
          "''https://youtu.be/dQw4w9WgXcQ''"]
    by simp
qed

lemma scratch_file_left_when_engine_raises:
  assumes "named_temporary_file env fs (CHR ''.'' # get_file_extension filename) = Inr path"
    and "md_convert env (fs(path \<mapsto> file_data)) path = Inl e"
  shows "snd (convert_file_to_markdown env fs file_data filename) path = Some file_data"
  using assms by (simp add: convert_file_to_markdown_def convert_file_try_def)

lemma scratch_file_removed_when_engine_returns:
  assumes "named_temporary_file env fs (CHR ''.'' # get_file_extension filename) = Inr path"
    and "md_convert env (fs(path \<mapsto> file_data)) path = Inr text"
  shows "convert_file_to_markdown env fs file_data filename = ((text, None), fs(path := None))"
  using assms by (simp add: convert_file_to_markdown_def convert_file_try_def os_unlink_def)

text \<open>
  C1 fails on the code where the engine raises: \<open>os.unlink\<close> stands inside the \<open>try\<close>
  block after the call of the engine, and the \<open>except\<close> clause returns without it. For
  an upload \<open>report.docx\<close> and an engine that raises, the call returns the error and the
  scratch file is still in the file system. (When the engine returns, the file is
  removed: \<open>scratch_file_removed_when_engine_returns\<close>.)
\<close>

theorem scratch_file_left_after_failure:
  "convert_file_to_markdown (engine_raising ''File conversion failed'') Map.empty [0x50, 0x4B] ''report.docx''
     = (([], Some ''File conversion failed''), [''/tmp/tmpk3x9.docx'' \<mapsto> [0x50, 0x4B]])"
  by (simp add: convert_file_to_markdown_def convert_file_try_def engine_raising_def docx_extension)

section \<open>The controller\<close>

lemma button_rejects_nothing:
  "convert_button env fs st None [] =
     \<lparr>session = st, files = fs,
      shown = [St_error ''Please upload a file or enter a YouTube URL''], calls = []\<rparr>"
  by (simp add: convert_button_def)

lemma button_rejects_url:
  "url \<noteq> [] \<Longrightarrow> \<not> is_youtube_url url \<Longrightarrow>
   convert_button env fs st upl url =
     \<lparr>session = st, files = fs,
      shown = [St_error ''Please enter a valid YouTube URL''], calls = []\<rparr>"
  by (simp add: convert_button_def)

lemma button_file:
  assumes "url = [] \<or> is_youtube_url url"
  shows "convert_button env fs st (Some f) url =
     (case convert_file_to_markdown env fs (getbuffer f) (name f) of
        ((content, error), fs') \<Rightarrow>
          (case if_error error of
             Some e \<Rightarrow>
               \<lparr>session = st, files = fs',
                shown = [St_error (''Error during conversion: '' @ e)],
                calls = [Convert_file (getbuffer f) (name f)]\<rparr>
           | None \<Rightarrow>
               \<lparr>session = st\<lparr>markdown_content := Some content, file_name := Some (name f)\<rparr>,
                files = fs',
                shown = [St_success ''Conversion completed successfully!''],
                calls = [Convert_file (getbuffer f) (name f)]\<rparr>))"
  using assms by (auto simp add: convert_button_def)

lemma button_url:
  assumes "is_youtube_url url"
  shows "convert_button env fs st None url =
     (case convert_youtube_to_markdown env fs url of
        (content, error) \<Rightarrow>
          (case if_error error of
             Some e \<Rightarrow>
               \<lparr>session = st, files = fs,
                shown = [St_error (''Error during conversion: '' @ e)],
                calls = [Convert_url url]\<rparr>
           | None \<Rightarrow>
               \<lparr>session = st\<lparr>markdown_content := Some content,
                             file_name := Some (youtube_file_name url)\<rparr>,
                files = fs,
                shown = [St_success ''Conversion completed successfully!''],
                calls = [Convert_url url]\<rparr>))"
proof -
  from assms have "url \<noteq> []" using not_youtube_Nil by auto
  with assms show ?thesis by (simp add: convert_button_def)
qed

lemma results_section_stored:
  "results_section \<lparr>markdown_content = Some content, file_name = Some stored\<rparr> =
     (if content = [] then []
      else [St_divider, St_download_button content (download_name stored),
            St_subheader ''Preview'', St_text_area (preview_content content)])"
  by (simp add: results_section_def)

lemma failed_file_conversion_keeps_result:
  assumes "convert_clicked inp" and "uploaded_file inp = Some f"
    and "youtube_url inp = [] \<or> is_youtube_url (youtube_url inp)"
    and "convert_file_to_markdown env fs (getbuffer f) (name f) = ((content, Some e), fs')"
    and "e \<noteq> []"
  shows "session (main env fs st inp) = init_session st \<and>
         shown (main env fs st inp) =
           St_error (''Error during conversion: '' @ e) # results_section (init_session st)"
  using assms by (simp add: main_clicked button_file if_error_def)

lemma failed_url_conversion_keeps_result:
  assumes "convert_clicked inp" and "uploaded_file inp = None"
    and "is_youtube_url (youtube_url inp)"
    and "convert_youtube_to_markdown env fs (youtube_url inp) = (content, Some e)"
    and "e \<noteq> []"
  shows "session (main env fs st inp) = init_session st \<and>
         shown (main env fs st inp) =
           St_error (''Error during conversion: '' @ e) # results_section (init_session st)"
  using assms by (simp add: main_clicked button_url if_error_def)

lemma main_shows_results:
  "\<exists>es. shown (main env fs st inp) = es @ results_section (session (main env fs st inp))"
  by (simp add: main_def Let_def)

lemma old_results:
  "results_section old_session =
     [St_divider, St_download_button ''# Old'' ''old.md'', St_subheader ''Preview'',
      St_text_area ''# Old'']"
  using download_name_ext [of "''docx''" "''old''"]
  by (simp add: old_session_def results_section_def preview_content_def)

lemma old_init: "init_session old_session = old_session"
  by (simp add: old_session_def init_session_def)

lemma short_url_accepted: "is_youtube_url ''https://youtu.be/dQw4w9WgXcQ''"
  by code_simp

lemma short_url_id: "extract_youtube_id ''https://youtu.be/dQw4w9WgXcQ'' = Some ''dQw4w9WgXcQ''"
  by code_simp

lemma feed_url_accepted: "is_youtube_url ''https://www.youtube.com/feed''"
  by code_simp

lemma feed_url_id: "extract_youtube_id ''https://www.youtube.com/feed'' = None"
  by code_simp

lemma report_converted:
  "convert_file_to_markdown (engine_returning ''# Report'') Map.empty
     (getbuffer report_docx) (name report_docx) = ((''# Report'', None), Map.empty)"
  by (simp add: convert_file_to_markdown_def convert_file_try_def engine_returning_def
      os_unlink_def report_docx_def docx_extension)

text \<open>
  C3 fails on the code for an exception whose message is empty (an \<open>AssertionError\<close>
  from a bare \<open>assert\<close>, for one): \<open>convert_file_to_markdown\<close> returns the pair of two
  empty strings, \<open>if error:\<close> is false for the empty message, and the controller
  treats the failure as a success. The stored content and file name are overwritten and
  the success message is shown. (A failure with a message that is not empty keeps the
  stored result: \<open>failed_file_conversion_keeps_result\<close> and
  \<open>failed_url_conversion_keeps_result\<close>.)
\<close>

theorem empty_error_message_overwrites_result:
  "main (engine_raising []) Map.empty
        \<lparr>markdown_content = Some ''# Old'', file_name = Some ''old.docx''\<rparr>
        \<lparr>uploaded_file = Some \<lparr>name = ''report.docx'', getbuffer = [0x50, 0x4B]\<rparr>,
         youtube_url = [], convert_clicked = True\<rparr>
   = \<lparr>session = \<lparr>markdown_content = Some [], file_name = Some ''report.docx''\<rparr>,
      files = [''/tmp/tmpk3x9.docx'' \<mapsto> [0x50, 0x4B]],
      shown = [St_success ''Conversion completed successfully!''],
      calls = [Convert_file [0x50, 0x4B] ''report.docx'']\<rparr>"
  by (simp add: main_def convert_button_def init_session_def results_section_def if_error_def
      convert_file_to_markdown_def convert_file_try_def engine_raising_def docx_extension)

text \<open>
  C5: when the button is pressed with neither a file nor a URL, and when it is pressed
  with a URL (a text that is not empty) that \<open>is_youtube_url\<close> rejects, the run shows
  the validation error, calls no conversion function, leaves the files alone, and the
  session is what the start of \<open>main\<close> made of it (\<open>init_session\<close>, the identity on a
  session that has both keys: \<open>init_session_stored\<close>).
\<close>

theorem invalid_submission_rejected:
  assumes "convert_clicked inp"
  shows "(uploaded_file inp = None \<and> youtube_url inp = [] \<longrightarrow>
            main env fs st inp =
              \<lparr>session = init_session st, files = fs,
               shown = St_error ''Please upload a file or enter a YouTube URL''
                         # results_section (init_session st),
               calls = []\<rparr>) \<and>
         (youtube_url inp \<noteq> [] \<and> \<not> is_youtube_url (youtube_url inp) \<longrightarrow>
            main env fs st inp =
              \<lparr>session = init_session st, files = fs,
               shown = St_error ''Please enter a valid YouTube URL''
                         # results_section (init_session st),
               calls = []\<rparr>)"
  using assms by (simp add: main_clicked button_rejects_nothing button_rejects_url)

theorem invalid_submission_witness:
  "main (engine_returning ''# Report'') Map.empty old_session
        \<lparr>uploaded_file = None, youtube_url = [], convert_clicked = True\<rparr>
     = \<lparr>session = old_session, files = Map.empty,
        shown = [St_error ''Please upload a file or enter a YouTube URL'',
                 St_divider, St_download_button ''# Old'' ''old.md'', St_subheader ''Preview'',
                 St_text_area ''# Old''],
        calls = []\<rparr> \<and>
   main (engine_returning ''# Report'') Map.empty old_session
        \<lparr>uploaded_file = None, youtube_url = ''https://example.com/video'',
         convert_clicked = True\<rparr>
     = \<lparr>session = old_session, files = Map.empty,
        shown = [St_error ''Please enter a valid YouTube URL'',
                 St_divider, St_download_button ''# Old'' ''old.md'', St_subheader ''Preview'',
                 St_text_area ''# Old''],
        calls = []\<rparr>"
  using invalid_submission_rejected
      [of "\<lparr>uploaded_file = None, youtube_url = [], convert_clicked = True\<rparr>"
          "engine_returning ''# Report''" Map.empty old_session]
    invalid_submission_rejected
      [of "\<lparr>uploaded_file = None, youtube_url = ''https://example.com/video'',
            convert_clicked = True\<rparr>"
          "engine_returning ''# Report''" Map.empty old_session]
    not_youtube_example
  by (simp add: old_init old_results)

text \<open>
  C6: for a stored content that is not empty (the results section is shown for no other),
  the download button carries the whole content, and the preview is the content itself
  when it has at most 2000 characters, else its first 2000 characters followed by the
  truncation notice.
\<close>

theorem preview_and_download:
  assumes "markdown_content st = Some content" and "file_name st = Some stored"
    and "content \<noteq> []"
  shows "results_section st =
           [St_divider,
            St_download_button content (download_name stored),
            St_subheader ''Preview'',
            St_text_area (if length content \<le> 2000 then content
                          else take 2000 content @ truncation_notice)]"
  using assms by (simp add: results_section_def preview_content_def)

theorem preview_and_download_witness:
  "results_section \<lparr>markdown_content = Some ''# Title'', file_name = Some ''report.docx''\<rparr>
     = [St_divider, St_download_button ''# Title'' ''report.md'', St_subheader ''Preview'',
        St_text_area ''# Title''] \<and>
   results_section \<lparr>markdown_content = Some (replicate 2001 CHR ''a''),
                    file_name = Some ''report.docx''\<rparr>
     = [St_divider, St_download_button (replicate 2001 CHR ''a'') ''report.md'',
        St_subheader ''Preview'',
        St_text_area (replicate 2000 CHR ''a'' @ truncation_notice)]"
  using preview_and_download
      [of "\<lparr>markdown_content = Some ''# Title'', file_name = Some ''report.docx''\<rparr>"
          "''# Title''" "''report.docx''"]
    preview_and_download
      [of "\<lparr>markdown_content = Some (replicate 2001 CHR ''a''),
            file_name = Some ''report.docx''\<rparr>"
          "replicate 2001 CHR ''a''" "''report.docx''"]
    download_name_ext [of "''docx''" "''report''"]
  by simp

text \<open>
  C7: when the conversion of an uploaded file named \<open>stem.ext\<close> succeeds, the session
  holds the new text and the file's name in place of what it held, and the download
  button, shown whenever the text is not empty, offers the text under \<open>stem.md\<close>.
\<close>

theorem file_conversion_names_download:
  assumes "convert_clicked inp" and "uploaded_file inp = Some f"
    and "youtube_url inp = [] \<or> is_youtube_url (youtube_url inp)"
    and "convert_file_to_markdown env fs (getbuffer f) (name f) = ((text, None), fs')"
    and "name f = stem @ ''.'' @ ext" and "CHR ''.'' \<notin> set ext"
  shows "session (main env fs st inp) =
           (init_session st)\<lparr>markdown_content := Some text, file_name := Some (name f)\<rparr> \<and>
         shown (main env fs st inp) =
           St_success ''Conversion completed successfully!'' #
           (if text = [] then []
            else [St_divider, St_download_button text (stem @ ''.md''),
                  St_subheader ''Preview'', St_text_area (preview_content text)])"
proof -
  have "download_name (name f) = stem @ ''.md''"
    using assms(5,6) download_name_ext [of ext stem] by simp
  with assms(1-4) show ?thesis
    by (simp add: main_clicked button_file if_error_def results_section_def)
qed

theorem file_conversion_witness:
  "session (main (engine_returning ''# Report'') Map.empty old_session
              \<lparr>uploaded_file = Some report_docx, youtube_url = [], convert_clicked = True\<rparr>)
     = \<lparr>markdown_content = Some ''# Report'', file_name = Some ''report.docx''\<rparr> \<and>
   shown (main (engine_returning ''# Report'') Map.empty old_session
              \<lparr>uploaded_file = Some report_docx, youtube_url = [], convert_clicked = True\<rparr>)
     = [St_success ''Conversion completed successfully!'',
        St_divider, St_download_button ''# Report'' ''report.md'', St_subheader ''Preview'',
        St_text_area ''# Report'']"
  using file_conversion_names_download
      [of "\<lparr>uploaded_file = Some report_docx, youtube_url = [], convert_clicked = True\<rparr>"
          report_docx "engine_returning ''# Report''" Map.empty "''# Report''" Map.empty
          "''report''" "''docx''" old_session]
    report_converted
  by (simp add: old_init old_session_def report_docx_def preview_content_def)

lemma ident_not_Nil: "ident x \<Longrightarrow> x \<noteq> []"
  by (auto simp: ident_def)

lemma youtube_file_name_cases:
  "youtube_file_name url =
     (case extract_youtube_id url of
        Some x \<Rightarrow> ''youtube_'' @ x @ ''.md''
      | None \<Rightarrow> ''youtube_video.md'')"
proof (cases "extract_youtube_id url")
  case None
  then show ?thesis by (simp add: youtube_file_name_def)
next
  case (Some x)
  then have "x \<noteq> []"
    using extract_Some_ident ident_not_Nil by blast
  with Some show ?thesis by (simp add: youtube_file_name_def)
qed

lemma youtube_download_name:
  "download_name (youtube_file_name url) = youtube_file_name url"
proof (cases "extract_youtube_id url")
  case None
  then show ?thesis
    using download_name_ext [of "''md''" "''youtube_video''"]
    by (simp add: youtube_file_name_cases)
next
  case (Some x)
  then show ?thesis
    using download_name_ext [of "''md''" "''youtube_'' @ x"]
    by (simp add: youtube_file_name_cases)
qed

text \<open>
  C8: when the conversion of a URL succeeds, the derived file name is \<open>youtube_X.md\<close>
  if \<open>extract_youtube_id\<close> returns \<open>X\<close> for the URL, and \<open>youtube_video.md\<close> if it
  returns nothing: the session stores the text under that name, and the download button,
  shown whenever the text is not empty, offers the text under the same name.
\<close>

theorem url_conversion_names_download:
  assumes "convert_clicked inp" and "uploaded_file inp = None"
    and "is_youtube_url (youtube_url inp)"
    and "convert_youtube_to_markdown env fs (youtube_url inp) = (text, None)"
    and "derived = (case extract_youtube_id (youtube_url inp) of
                      Some x \<Rightarrow> ''youtube_'' @ x @ ''.md''
                    | None \<Rightarrow> ''youtube_video.md'')"
  shows "session (main env fs st inp) =
           (init_session st)\<lparr>markdown_content := Some text, file_name := Some derived\<rparr> \<and>
         shown (main env fs st inp) =
           St_success ''Conversion completed successfully!'' #
           (if text = [] then []
            else [St_divider, St_download_button text derived,
                  St_subheader ''Preview'', St_text_area (preview_content text)])"
proof -
  from assms(5) have d: "youtube_file_name (youtube_url inp) = derived"
    by (simp add: youtube_file_name_cases)
  then have "download_name derived = derived"
    using youtube_download_name [of "youtube_url inp"] by simp
  with assms(1-4) d show ?thesis
    by (simp add: main_clicked button_url if_error_def results_section_def)
qed

theorem url_conversion_witness:
  "session (main (engine_returning ''# Transcript'') Map.empty old_session
            \<lparr>uploaded_file = None, youtube_url = ''https://youtu.be/dQw4w9WgXcQ'',
             convert_clicked = True\<rparr>)
     = \<lparr>markdown_content = Some ''# Transcript'',
        file_name = Some ''youtube_dQw4w9WgXcQ.md''\<rparr> \<and>
   shown (main (engine_returning ''# Transcript'') Map.empty old_session
            \<lparr>uploaded_file = None, youtube_url = ''https://youtu.be/dQw4w9WgXcQ'',
             convert_clicked = True\<rparr>)
     = [St_success ''Conversion completed successfully!'',
        St_divider, St_download_button ''# Transcript'' ''youtube_dQw4w9WgXcQ.md'',
        St_subheader ''Preview'', St_text_area ''# Transcript''] \<and>
   shown (main (engine_returning ''# Transcript'') Map.empty old_session
            \<lparr>uploaded_file = None, youtube_url = ''https://www.youtube.com/feed'',
             convert_clicked = True\<rparr>)
     = [St_success ''Conversion completed successfully!'',
        St_divider, St_download_button ''# Transcript'' ''youtube_video.md'',
        St_subheader ''Preview'', St_text_area ''# Transcript'']"
  using url_conversion_names_download
      [of "\<lparr>uploaded_file = None, youtube_url = ''https://youtu.be/dQw4w9WgXcQ'',
            convert_clicked = True\<rparr>"
          "engine_returning ''# Transcript''" Map.empty "''# Transcript''"
          "''youtube_dQw4w9WgXcQ.md''" old_session]
    url_conversion_names_download
      [of "\<lparr>uploaded_file = None, youtube_url = ''https://www.youtube.com/feed'',
            convert_clicked = True\<rparr>"
          "engine_returning ''# Transcript''" Map.empty "''# Transcript''"
          "''youtube_video.md''" old_session]
    short_url_accepted short_url_id feed_url_accepted feed_url_id
  by (simp add: convert_youtube_to_markdown_def engine_returning_def preview_content_def
      old_init old_session_def)

text \<open>
  C10: when the button is pressed with a file and a URL, a URL that \<open>is_youtube_url\<close>
  rejects makes the run show the validation error and convert nothing; with a URL that
  it accepts, the run is the one without any URL: the file is converted, and it is the
  only conversion that is called.
\<close>

theorem file_takes_precedence:
  assumes "convert_clicked inp" and "uploaded_file inp = Some f" and "youtube_url inp \<noteq> []"
  shows "(\<not> is_youtube_url (youtube_url inp) \<longrightarrow>
            main env fs st inp =
              \<lparr>session = init_session st, files = fs,
               shown = St_error ''Please enter a valid YouTube URL''
                         # results_section (init_session st),
               calls = []\<rparr>) \<and>
         (is_youtube_url (youtube_url inp) \<longrightarrow>
            main env fs st inp = main env fs st (inp\<lparr>youtube_url := []\<rparr>) \<and>
            calls (main env fs st inp) = [Convert_file (getbuffer f) (name f)])"
proof (intro conjI impI)
  assume "\<not> is_youtube_url (youtube_url inp)"
  with assms show "main env fs st inp =
      \<lparr>session = init_session st, files = fs,
       shown = St_error ''Please enter a valid YouTube URL'' # results_section (init_session st),
       calls = []\<rparr>"
    by (simp add: main_clicked button_rejects_url)
next
  assume "is_youtube_url (youtube_url inp)"
  with assms show "main env fs st inp = main env fs st (inp\<lparr>youtube_url := []\<rparr>)"
    by (simp add: main_clicked button_file)
next
  assume "is_youtube_url (youtube_url inp)"
  with assms show "calls (main env fs st inp) = [Convert_file (getbuffer f) (name f)]"
    by (simp add: main_clicked button_file split: prod.splits option.splits)
qed

theorem file_takes_precedence_witness:
  "main (engine_returning ''# Report'') Map.empty old_session
        \<lparr>uploaded_file = Some report_docx, youtube_url = ''https://example.com/video'',
         convert_clicked = True\<rparr>
     = \<lparr>session = old_session, files = Map.empty,
        shown = [St_error ''Please enter a valid YouTube URL'',
                 St_divider, St_download_button ''# Old'' ''old.md'', St_subheader ''Preview'',
                 St_text_area ''# Old''],
        calls = []\<rparr> \<and>
   main (engine_returning ''# Report'') Map.empty old_session
        \<lparr>uploaded_file = Some report_docx, youtube_url = ''https://youtu.be/dQw4w9WgXcQ'',
         convert_clicked = True\<rparr>
     = main (engine_returning ''# Report'') Map.empty old_session
        \<lparr>uploaded_file = Some report_docx, youtube_url = [], convert_clicked = True\<rparr> \<and>
   calls (main (engine_returning ''# Report'') Map.empty old_session
        \<lparr>uploaded_file = Some report_docx, youtube_url = ''https://youtu.be/dQw4w9WgXcQ'',
         convert_clicked = True\<rparr>)
     = [Convert_file [0x50, 0x4B] ''report.docx'']"
proof -
  let ?env = "engine_returning ''# Report''"
  let ?bad = "\<lparr>uploaded_file = Some report_docx, youtube_url = ''https://example.com/video'',
               convert_clicked = True\<rparr>"
  let ?good = "\<lparr>uploaded_file = Some report_docx, youtube_url = ''https://youtu.be/dQw4w9WgXcQ'',
                convert_clicked = True\<rparr>"
  have "\<not> is_youtube_url (youtube_url ?bad)"
    by (simp add: not_youtube_example)
  with file_takes_precedence [of ?bad report_docx ?env Map.empty old_session]
  have rejected: "main ?env Map.empty old_session ?bad =
      \<lparr>session = old_session, files = Map.empty,
       shown = [St_error ''Please enter a valid YouTube URL'',
                St_divider, St_download_button ''# Old'' ''old.md'', St_subheader ''Preview'',
                St_text_area ''# Old''],
       calls = []\<rparr>"
    by (simp add: old_init old_results)
  have "is_youtube_url (youtube_url ?good)"
    by (simp add: short_url_accepted)
  moreover have "(\<not> is_youtube_url (youtube_url ?good) \<longrightarrow>
            main ?env Map.empty old_session ?good =
              \<lparr>session = init_session old_session, files = Map.empty,
               shown = St_error ''Please enter a valid YouTube URL''
                         # results_section (init_session old_session),
               calls = []\<rparr>) \<and>
         (is_youtube_url (youtube_url ?good) \<longrightarrow>
            main ?env Map.empty old_session ?good
              = main ?env Map.empty old_session (?good\<lparr>youtube_url := []\<rparr>) \<and>
            calls (main ?env Map.empty old_session ?good)
              = [Convert_file (getbuffer report_docx) (name report_docx)])"
    by (rule file_takes_precedence) simp_all
  ultimately have same: "main ?env Map.empty old_session ?good
              = main ?env Map.empty old_session (?good\<lparr>youtube_url := []\<rparr>)"
    and called: "calls (main ?env Map.empty old_session ?good)
              = [Convert_file (getbuffer report_docx) (name report_docx)]"
    by blast+
  from same have same': "main ?env Map.empty old_session ?good
      = main ?env Map.empty old_session
          \<lparr>uploaded_file = Some report_docx, youtube_url = [], convert_clicked = True\<rparr>"
    by simp
  from called have called': "calls (main ?env Map.empty old_session ?good)
      = [Convert_file [0x50, 0x4B] ''report.docx'']"
    by (simp add: report_docx_def)
  from rejected same' called' show ?thesis by (intro conjI)
qed

end
